theory Spec2Isabelle
  imports Main "HOL-Library.AList"
begin

section \<open>JavaScript values handled by the JSON interface\<close>

text \<open>
  The values that reach \<open>Reviver\<close>, \<open>Generic_toJSON\<close> and \<open>Generic_fromJSON\<close>: the JSON
  values, \<open>undefined\<close>, and what a property read can bring up from the built-in
  prototypes. \<open>JObject p fs\<close> is an object with prototype \<open>p\<close> and the own enumerable
  data properties \<open>fs\<close>, in enumeration order; where a key occurs twice in such a list
  the first occurrence is the property. \<open>JObj fs\<close> is the object that an object literal
  or \<open>JSON.parse\<close> makes: its prototype is \<open>Object.prototype\<close>. An array has the
  prototype \<open>Array.prototype\<close>. \<open>JFun name\<close> is a built-in function, which the code
  under study only ever passes on as a value: its own properties are not modelled.
  Numbers are never computed with by that code, so their payload is an integer.
  Apart from the accessor \<open>__proto__\<close> of \<open>Object.prototype\<close>, every property is a
  writable data property.
\<close>

datatype jsval =
    JUndefined
  | JNull
  | JBool bool
  | JNum int
  | JStr string
  | JFun string
  | JObjectPrototype
  | JArrayPrototype
  | JArr "jsval list"
  | JObject jsval "(string \<times> jsval) list"

abbreviation JObj :: "(string \<times> jsval) list \<Rightarrow> jsval" where
  "JObj fs \<equiv> JObject JObjectPrototype fs"

datatype jstype = T_undefined | T_object | T_boolean | T_number | T_string | T_function

text \<open>The \<open>typeof\<close> operator: \<open>null\<close> and arrays are of type "object".\<close>

fun typeof :: "jsval \<Rightarrow> jstype" where
  "typeof JUndefined = T_undefined"
| "typeof JNull = T_object"
| "typeof (JBool b) = T_boolean"
| "typeof (JNum n) = T_number"
| "typeof (JStr s) = T_string"
| "typeof (JFun f) = T_function"
| "typeof JObjectPrototype = T_object"
| "typeof JArrayPrototype = T_object"
| "typeof (JArr xs) = T_object"
| "typeof (JObject p fs) = T_object"

text \<open>Whether a value is an object in the sense of the language: not a primitive.\<close>

definition is_object :: "jsval \<Rightarrow> bool" where
  "is_object v \<longleftrightarrow> typeof v = T_function \<or> (typeof v = T_object \<and> v \<noteq> JNull)"

text \<open>The decimal numeral of an array index, as a property key.\<close>

function string_of_nat :: "nat \<Rightarrow> string" where
  "string_of_nat n =
     (if n < 10 then [char_of (48 + n)]
      else string_of_nat (n div 10) @ [char_of (48 + n mod 10)])"
  by pat_completeness auto
termination
  by (relation "measure id") auto

declare string_of_nat.simps [simp del]

definition array_entries :: "jsval list \<Rightarrow> (string \<times> jsval) list" where
  "array_entries xs = zip (map string_of_nat [0..<length xs]) xs"

section \<open>The built-in prototypes\<close>

text \<open>
  The own properties of \<open>Object.prototype\<close> and of \<open>Array.prototype\<close>, as the language
  standard (ECMAScript 2023, with its annex B) gives them. Every one is a function and
  none is enumerable, but for two: \<open>__proto__\<close> of \<open>Object.prototype\<close> is an accessor
  whose getter returns the prototype of the object it is read on and whose setter
  replaces it, and \<open>length\<close> of \<open>Array.prototype\<close> is the number 0.
\<close>

definition Object_prototype_methods :: "string list" where
  "Object_prototype_methods =
     [''constructor'', ''__defineGetter__'', ''__defineSetter__'', ''hasOwnProperty'',
      ''__lookupGetter__'', ''__lookupSetter__'', ''isPrototypeOf'',
      ''propertyIsEnumerable'', ''toString'', ''valueOf'', ''toLocaleString'']"

definition Array_prototype_methods :: "string list" where
  "Array_prototype_methods =
     [''constructor'', ''at'', ''concat'', ''copyWithin'', ''fill'', ''find'', ''findIndex'',
      ''findLast'', ''findLastIndex'', ''lastIndexOf'', ''pop'', ''push'', ''reverse'',
      ''shift'', ''unshift'', ''slice'', ''sort'', ''splice'', ''includes'', ''indexOf'',
      ''join'', ''keys'', ''entries'', ''values'', ''forEach'', ''filter'', ''flat'',
      ''flatMap'', ''map'', ''every'', ''some'', ''reduce'', ''reduceRight'',
      ''toLocaleString'', ''toString'', ''toReversed'', ''toSorted'', ''toSpliced'', ''with'']"

text \<open>
  What a search for a property comes to: a data property with its value, the
  \<open>__proto__\<close> accessor, or nothing.
\<close>

datatype lookup = Data jsval | ProtoAccessor | Absent

definition Object_prototype_lookup :: "string \<Rightarrow> lookup" where
  "Object_prototype_lookup key =
     (if key = ''__proto__'' then ProtoAccessor
      else if key \<in> set Object_prototype_methods
      then Data (JFun (''Object.prototype.'' @ key))
      else Absent)"

definition Array_prototype_lookup :: "string \<Rightarrow> lookup" where
  "Array_prototype_lookup key =
     (if key = ''length'' then Data (JNum 0)
      else if key \<in> set Array_prototype_methods
      then Data (JFun (''Array.prototype.'' @ key))
      else Object_prototype_lookup key)"

section \<open>Reading properties\<close>

text \<open>
  The search that \<open>obj[key]\<close> and \<open>key in obj\<close> make: the own properties first, then
  the prototype chain. An array has its elements under their indices, and a \<open>length\<close>.
  The code reads properties only of values it has checked to be non-null objects, so
  the primitive cases are never the start of a search; \<open>null\<close> is the end of a chain.
\<close>

fun find_prop :: "jsval \<Rightarrow> string \<Rightarrow> lookup" where
  "find_prop (JObject p fs) key =
     (case map_of fs key of Some v \<Rightarrow> Data v | None \<Rightarrow> find_prop p key)"
| "find_prop (JArr xs) key =
     (case map_of (array_entries xs @ [(''length'', JNum (int (length xs)))]) key of
        Some v \<Rightarrow> Data v
      | None \<Rightarrow> Array_prototype_lookup key)"
| "find_prop JArrayPrototype key = Array_prototype_lookup key"
| "find_prop JObjectPrototype key = Object_prototype_lookup key"
| "find_prop v key = Absent"

fun prototype_of :: "jsval \<Rightarrow> jsval" where
  "prototype_of (JObject p fs) = p"
| "prototype_of (JArr xs) = JArrayPrototype"
| "prototype_of JArrayPrototype = JObjectPrototype"
| "prototype_of v = JNull"

text \<open>\<open>obj[key]\<close>: a property that is not found reads \<open>undefined\<close>.\<close>

definition get_prop :: "jsval \<Rightarrow> string \<Rightarrow> jsval" where
  "get_prop v key =
     (case find_prop v key of
        Data x \<Rightarrow> x
      | ProtoAccessor \<Rightarrow> prototype_of v
      | Absent \<Rightarrow> JUndefined)"

text \<open>\<open>key in obj\<close>.\<close>

definition has_prop :: "jsval \<Rightarrow> string \<Rightarrow> bool" where
  "has_prop v key \<longleftrightarrow> find_prop v key \<noteq> Absent"

text \<open>\<open>Object.prototype.hasOwnProperty.call(obj, key)\<close>: the own properties only.\<close>

fun has_own_prop :: "jsval \<Rightarrow> string \<Rightarrow> bool" where
  "has_own_prop (JObject p fs) key \<longleftrightarrow> map_of fs key \<noteq> None"
| "has_own_prop (JArr xs) key \<longleftrightarrow>
     map_of (array_entries xs @ [(''length'', JNum (int (length xs)))]) key \<noteq> None"
| "has_own_prop JObjectPrototype key \<longleftrightarrow>
     key = ''__proto__'' \<or> key \<in> set Object_prototype_methods"
| "has_own_prop JArrayPrototype key \<longleftrightarrow>
     key = ''length'' \<or> key \<in> set Array_prototype_methods"
| "has_own_prop v key \<longleftrightarrow> False"

text \<open>The own enumerable properties of a value: what \<open>Object.entries\<close> walks.\<close>

fun enumerable_props :: "jsval \<Rightarrow> (string \<times> jsval) list" where
  "enumerable_props (JObject p fs) = fs"
| "enumerable_props (JArr xs) = array_entries xs"
| "enumerable_props v = []"

text \<open>\<open>Object.entries(obj)\<close>: every own enumerable key once, with its value.\<close>

definition entries_of :: "jsval \<Rightarrow> (string \<times> jsval) list" where
  "entries_of v = AList.clearjunk (enumerable_props v)"

text \<open>Whether \<open>key\<close> is among the keys that \<open>Object.entries\<close> lists.\<close>

definition has_enumerable_prop :: "jsval \<Rightarrow> string \<Rightarrow> bool" where
  "has_enumerable_prop v key \<longleftrightarrow> map_of (enumerable_props v) key \<noteq> None"

section \<open>Objects that the code writes to\<close>

text \<open>
  The two objects that the code assigns to are the \<open>data\<close> object of \<open>Generic_toJSON\<close>
  and the instance that \<open>Generic_fromJSON\<close> constructs; the object that
  \<open>Generic_toJSON\<close> reads is of the same kind. Such an object is given by its prototype
  and its own fields.
\<close>

datatype jsobject = Object (proto_of: jsval) (own_fields: "(string \<times> jsval) list")

fun value_of :: "jsobject \<Rightarrow> jsval" where
  "value_of (Object p fs) = JObject p fs"

definition getField :: "jsobject \<Rightarrow> string \<Rightarrow> jsval" where
  "getField obj key = get_prop (value_of obj) key"

definition hasField :: "jsobject \<Rightarrow> string \<Rightarrow> bool" where
  "hasField obj key \<longleftrightarrow> has_prop (value_of obj) key"

definition hasOwnField :: "jsobject \<Rightarrow> string \<Rightarrow> bool" where
  "hasOwnField obj key \<longleftrightarrow> has_own_prop (value_of obj) key"

text \<open>
  \<open>obj[key] = val\<close>. An own property is updated in its place. Otherwise the
  prototype chain is searched: where the search comes to the \<open>__proto__\<close> accessor its
  setter runs, which makes \<open>val\<close> the prototype of \<open>obj\<close> when \<open>val\<close> is an object or
  \<open>null\<close> and does nothing when it is any other value, and no own property is made; in
  every other case \<open>obj\<close> gets a new own property, which goes last. The values assigned
  are read from another object, so the new prototype cannot be \<open>obj\<close> itself.
\<close>

fun setField :: "jsobject \<Rightarrow> string \<Rightarrow> jsval \<Rightarrow> jsobject" where
  "setField (Object p fs) key val =
     (if map_of fs key \<noteq> None then Object p (AList.update key val fs)
      else case find_prop p key of
             ProtoAccessor \<Rightarrow>
               if is_object val \<or> val = JNull then Object val fs else Object p fs
           | Data x \<Rightarrow> Object p (AList.update key val fs)
           | Absent \<Rightarrow> Object p (AList.update key val fs))"

declare setField.simps [simp del]

text \<open>\<open>Object.entries(obj)\<close> on such an object.\<close>

definition Object_entries :: "jsobject \<Rightarrow> (string \<times> jsval) list" where
  "Object_entries obj = entries_of (value_of obj)"

section \<open>Errors and observable effects\<close>

text \<open>
  \<open>Error msg\<close> is \<open>throw new Error(msg)\<close>, and \<open>TypeError\<close> is what the language
  raises when a value that is not a function is called. The other two are raised by
  helpers that \<open>Reviver\<close> and \<open>Generic_fromJSON\<close> call.
\<close>

datatype error = Error string | TypeError | TypeAssertionError | ValidationError

definition UnknownConstructorError :: "string \<Rightarrow> error" where
  "UnknownConstructorError c =
     Error (''Could not locate constructor named '' @ c @
            ''. If the save data is valid, this is a bug.'')"

text \<open>
  What a call of \<open>Reviver\<close> does besides returning: the \<open>console.warn\<close> lines it
  prints, and the calls it makes to a registered class's \<open>fromJSON\<close> and to
  \<open>validateObject\<close>, each recorded under the registry key of the class.
\<close>

datatype event =
    ConsoleWarn string
  | Invoked_fromJSON string
  | Invoked_validateObject string

definition legacyWarning :: "string \<Rightarrow> string" where
  "legacyWarning c =
     ''Legacy load type '' @ c @ '' converted to expected format while loading.''"

section \<open>Helpers imported from outside the file\<close>

text \<open>
  Modelled from the spec: \<open>objectAssert\<close> of \<open>./helpers/typeAssertion\<close> is not among
  the sources. The specification says of the data handed to a reconstruction routine
  that it "must be a non-null structured value -- failing this is a TypeAssertion
  error". The structured values are the objects, arrays among them.
\<close>

fun objectAssert :: "jsval \<Rightarrow> error + unit" where
  "objectAssert (JObject p fs) = Inr ()"
| "objectAssert (JArr xs) = Inr ()"
| "objectAssert JObjectPrototype = Inr ()"
| "objectAssert JArrayPrototype = Inr ()"
| "objectAssert v = Inl TypeAssertionError"

text \<open>
  Modelled from the spec: \<open>ObjectValidator\<close> and \<open>validateObject\<close> of \<open>./Validator\<close>
  are not among the sources. The specification says that a declared validation schema
  is checked against the reconstructed instance and that "a structural mismatch
  (required field missing, wrong shape) raises a Validation error"; on success the
  instance is returned as it is. A schema is taken as the structural check it denotes.
\<close>

type_synonym ObjectValidator = "jsval \<Rightarrow> bool"

definition validateObject :: "jsval \<Rightarrow> ObjectValidator \<Rightarrow> error + unit" where
  "validateObject obj validator = (if validator obj then Inr () else Inl ValidationError)"

section \<open>The reviver\<close>

record IReviverValue =
  ctor :: string
  data :: jsval

text \<open>
  A registered class: its static \<open>fromJSON\<close>, which receives the whole envelope and
  may throw, and its optional \<open>validationData\<close>.
\<close>

record JsonableClass =
  fromJSON :: "jsval \<Rightarrow> error + jsval"
  validationData :: "ObjectValidator option"

definition isReviverValue :: "jsval \<Rightarrow> bool" where
  "isReviverValue v \<longleftrightarrow>
     typeof v = T_object \<and> v \<noteq> JNull \<and> has_prop v ''ctor'' \<and>
     typeof (get_prop v ''ctor'') = T_string \<and> has_prop v ''data''"

text \<open>The string in \<open>value.ctor\<close>, read only after \<open>isReviverValue\<close> has held.\<close>

fun the_string :: "jsval \<Rightarrow> string" where
  "the_string (JStr s) = s"
| "the_string v = []"

definition legacyUnwrapCtors :: "string list" where
  "legacyUnwrapCtors = [''AllServersMap'', ''Industry'', ''Employee'', ''Company'', ''Faction'']"

text \<open>
  \<open>Reviver\<close>. The registry \<open>constructorsForReviver\<close> is an exported object that other
  modules add their classes to, and \<open>loadActionIdentifier\<close> is imported from a module
  that is not among the sources: both are parameters. The registry is given by its
  own properties, the registered classes. It is made by an object literal, so its
  prototype is \<open>Object.prototype\<close>, and the read \<open>constructorsForReviver[value.ctor]\<close>
  of a key that is not registered goes on to that prototype: a key that names one of
  its members reads a function, or for \<open>__proto__\<close> the prototype itself. Either is
  truthy, so the legacy \<open>switch\<close> is passed over, and neither has a \<open>fromJSON\<close>, so
  the call \<open>ctor.fromJSON(value)\<close> raises a \<open>TypeError\<close>.

  The result is the list of effects of the statements of \<open>Reviver\<close> itself, in order,
  then the value returned or the error thrown; an error thrown by a function that
  \<open>Reviver\<close> calls passes through it.
\<close>

definition Reviver ::
  "(string \<rightharpoonup> JsonableClass) \<Rightarrow> (jsval \<Rightarrow> error + jsval) \<Rightarrow> string \<Rightarrow> jsval
     \<Rightarrow> event list \<times> (error + jsval)" where
  "Reviver constructorsForReviver loadActionIdentifier key v =
     (if \<not> isReviverValue v then ([], Inr v)
      else
        let c = the_string (get_prop v ''ctor'') in
        case constructorsForReviver c of
          None \<Rightarrow>
            (case Object_prototype_lookup c of
               Absent \<Rightarrow>
                 if c \<in> set legacyUnwrapCtors
                 then ([ConsoleWarn (legacyWarning c)], Inr (get_prop v ''data''))
                 else if c = ''ActionIdentifier''
                 then ([], loadActionIdentifier (get_prop v ''data''))
                 else ([], Inl (UnknownConstructorError c))
             | Data inherited \<Rightarrow> ([], Inl TypeError)
             | ProtoAccessor \<Rightarrow> ([], Inl TypeError))
        | Some cls \<Rightarrow>
            (case fromJSON cls v of
               Inl e \<Rightarrow> ([Invoked_fromJSON c], Inl e)
             | Inr obj \<Rightarrow>
                 (case validationData cls of
                    None \<Rightarrow> ([Invoked_fromJSON c], Inr obj)
                  | Some validator \<Rightarrow>
                      (case validateObject obj validator of
                         Inl e \<Rightarrow> ([Invoked_fromJSON c, Invoked_validateObject c], Inl e)
                       | Inr u \<Rightarrow> ([Invoked_fromJSON c, Invoked_validateObject c], Inr obj)))))"

section \<open>The generic serializer and deserializer\<close>

text \<open>
  \<open>Generic_toJSON\<close>. The source object is of a type \<open>T extends Record<string, any>\<close>;
  \<open>keys\<close> is \<open>None\<close> when the argument is left out. An array of keys is truthy also
  when it is empty. The \<open>data\<close> object starts as the empty object literal.
\<close>

definition Generic_toJSON :: "string \<Rightarrow> jsobject \<Rightarrow> string list option \<Rightarrow> IReviverValue" where
  "Generic_toJSON ctorName obj keys =
     (case keys of
        Some ks \<Rightarrow>
          \<lparr>ctor = ctorName,
           data = value_of (fold (\<lambda>key d. setField d key (getField obj key)) ks
                                 (Object JObjectPrototype []))\<rparr>
      | None \<Rightarrow>
          \<lparr>ctor = ctorName,
           data = value_of (fold (\<lambda>(key, val) d. setField d key val) (Object_entries obj)
                                 (Object JObjectPrototype []))\<rparr>)"

text \<open>
  \<open>Generic_fromJSON\<close>. The first argument is the instance that \<open>new ctor()\<close> makes: the
  constructor is one that can be called without arguments. The prototype of the
  instance is that of its class, which holds the methods.
\<close>

definition Generic_fromJSON ::
  "jsobject \<Rightarrow> jsval \<Rightarrow> string list option \<Rightarrow> error + jsobject" where
  "Generic_fromJSON new_ctor d keys =
     (case objectAssert d of
        Inl e \<Rightarrow> Inl e
      | Inr u \<Rightarrow>
          (case keys of
             Some ks \<Rightarrow>
               Inr (fold (\<lambda>key obj.
                            let val = get_prop d key
                            in if val \<noteq> JUndefined then setField obj key val else obj)
                         ks new_ctor)
           | None \<Rightarrow>
               Inr (fold (\<lambda>(key, val) obj. setField obj key val) (entries_of d) new_ctor)))"

section \<open>Assignments and reads\<close>

text \<open>Only a search for \<open>__proto__\<close> can come to the accessor.\<close>

lemma find_prop_ProtoAccessor: "find_prop v key = ProtoAccessor \<Longrightarrow> key = ''__proto__''"
  by (induction v key rule: find_prop.induct)
     (auto simp: Object_prototype_lookup_def Array_prototype_lookup_def
           split: option.splits if_splits)

lemma setField_plain:
  "key \<noteq> ''__proto__'' \<Longrightarrow> setField (Object p fs) key val = Object p (AList.update key val fs)"
  using find_prop_ProtoAccessor [of p key]
  by (cases "find_prop p key") (auto simp: setField.simps)

lemma setField_plain':
  "''__proto__'' \<noteq> key \<Longrightarrow> setField (Object p fs) key val = Object p (AList.update key val fs)"
  by (rule setField_plain) simp

lemma own_fields_setField:
  "k \<noteq> ''__proto__'' \<Longrightarrow>
   map_of (own_fields (setField obj key val)) k =
     (if key = k then Some val else map_of (own_fields obj) k)"
proof (cases obj)
  case (Object p fs)
  assume k: "k \<noteq> ''__proto__''"
  show ?thesis
  proof (cases "key = ''__proto__''")
    case False
    then show ?thesis using Object by (simp add: setField_plain update_conv')
  next
    case True
    with k have "key \<noteq> k" by simp
    then show ?thesis using Object
      by (auto simp: setField.simps update_conv' split: lookup.splits)
  qed
qed

lemma getField_Object:
  "getField (Object p fs) k =
     (case map_of fs k of
        Some v \<Rightarrow> v
      | None \<Rightarrow> (case find_prop p k of Data x \<Rightarrow> x | ProtoAccessor \<Rightarrow> p | Absent \<Rightarrow> JUndefined))"
  by (auto simp: getField_def get_prop_def split: option.splits lookup.splits)

lemma hasField_Object:
  "hasField (Object p fs) k \<longleftrightarrow> map_of fs k \<noteq> None \<or> find_prop p k \<noteq> Absent"
  by (simp add: hasField_def has_prop_def split: option.splits)

lemma getField_own: "map_of (own_fields obj) k = Some v \<Longrightarrow> getField obj k = v"
  by (cases obj) (simp add: getField_Object)

lemma hasField_own: "map_of (own_fields obj) k = Some v \<Longrightarrow> hasField obj k"
  by (cases obj) (simp add: hasField_Object)

lemma map_of_fold_update_keys:
  "map_of (fold (\<lambda>key fs. AList.update key (f key) fs) ks init) k =
     (if k \<in> set ks then Some (f k) else map_of init k)"
  by (induction ks arbitrary: init) (auto simp: update_conv')

lemma map_of_fold_update_defined:
  "map_of (fold (\<lambda>key fs. let val = g key
                           in if val \<noteq> JUndefined then AList.update key val fs else fs)
                ks init) k =
     (if k \<in> set ks \<and> g k \<noteq> JUndefined then Some (g k) else map_of init k)"
  by (induction ks arbitrary: init) (auto simp: update_conv' Let_def)

lemma map_of_fold_update_entries:
  "distinct (map fst es) \<Longrightarrow>
   map_of (fold (\<lambda>(key, val) fs. AList.update key val fs) es init) k =
     (case map_of es k of Some v \<Rightarrow> Some v | None \<Rightarrow> map_of init k)"
proof (induction es arbitrary: init)
  case Nil
  then show ?case by simp
next
  case (Cons e es)
  obtain a b where e: "e = (a, b)" by (cases e)
  from Cons.prems e have fresh: "map_of es a = None" and dist: "distinct (map fst es)"
    by (auto simp: map_of_eq_None_iff)
  show ?case
    using Cons.IH [OF dist, of "AList.update a b init"] fresh e
    by (auto simp: update_conv' split: option.splits)
qed

lemma fold_save_keys:
  "''__proto__'' \<notin> set ks \<Longrightarrow>
   fold (\<lambda>key d. setField d key (f key)) ks (Object p fs) =
     Object p (fold (\<lambda>key fs. AList.update key (f key) fs) ks fs)"
  by (induction ks arbitrary: fs) (auto simp: setField_plain')

lemma fold_load_keys:
  "''__proto__'' \<notin> set ks \<Longrightarrow>
   fold (\<lambda>key obj. let val = g key
                    in if val \<noteq> JUndefined then setField obj key val else obj)
        ks (Object p fs) =
     Object p (fold (\<lambda>key fs. let val = g key
                               in if val \<noteq> JUndefined then AList.update key val fs else fs)
                    ks fs)"
  by (induction ks arbitrary: fs) (auto simp: setField_plain' Let_def)

lemma fold_entries:
  "''__proto__'' \<notin> fst ` set es \<Longrightarrow>
   fold (\<lambda>(key, val) obj. setField obj key val) es (Object p fs) =
     Object p (fold (\<lambda>(key, val) fs. AList.update key val fs) es fs)"
  by (induction es arbitrary: fs) (auto simp: setField_plain')

lemma own_fields_fold_entries:
  "distinct (map fst es) \<Longrightarrow> k \<noteq> ''__proto__'' \<Longrightarrow>
   map_of (own_fields (fold (\<lambda>(key, val) obj. setField obj key val) es obj)) k =
     (case map_of es k of Some v \<Rightarrow> Some v | None \<Rightarrow> map_of (own_fields obj) k)"
proof (induction es arbitrary: obj)
  case Nil
  then show ?case by simp
next
  case (Cons e es)
  obtain a b where e: "e = (a, b)" by (cases e)
  from Cons.prems e have fresh: "map_of es a = None" and dist: "distinct (map fst es)"
    by (auto simp: map_of_eq_None_iff)
  show ?case
    using Cons.IH [OF dist Cons.prems(2), of "setField obj a b"] fresh e Cons.prems(2)
    by (auto simp: own_fields_setField split: option.splits)
qed

section \<open>What the serializer writes and the deserializer reads\<close>

lemma structured_objectAssert:
  "typeof d = T_object \<Longrightarrow> d \<noteq> JNull \<Longrightarrow> objectAssert d = Inr ()"
  by (cases d) simp_all

lemma get_prop_enumerable:
  assumes "has_enumerable_prop d k"
  shows "map_of (enumerable_props d) k = Some (get_prop d k)"
proof -
  from assms obtain v where v: "map_of (enumerable_props d) k = Some v"
    by (auto simp: has_enumerable_prop_def)
  then have "find_prop d k = Data v"
    by (cases d) (simp_all add: map_add_def)
  then have "get_prop d k = v" by (simp add: get_prop_def)
  with v show ?thesis by simp
qed

lemma no_proto_entry:
  "\<not> has_enumerable_prop d ''__proto__'' \<Longrightarrow> ''__proto__'' \<notin> fst ` set (entries_of d)"
  using clearjunk_keys_set [of "enumerable_props d"]
  by (simp add: has_enumerable_prop_def entries_of_def map_of_eq_None_iff)

lemma map_of_entries_of: "map_of (entries_of d) = map_of (enumerable_props d)"
  by (simp add: entries_of_def map_of_clearjunk)

lemma distinct_entries_of: "distinct (map fst (entries_of d))"
  by (simp add: entries_of_def)

lemma getField_absent: "\<not> hasField obj k \<Longrightarrow> getField obj k = JUndefined"
  by (simp add: hasField_def has_prop_def getField_def get_prop_def)

lemma Generic_fromJSON_keys_read:
  assumes "typeof d = T_object" and "d \<noteq> JNull" and "''__proto__'' \<notin> set ks"
  shows "\<exists>r. Generic_fromJSON new_ctor d (Some ks) = Inr r \<and>
           (\<forall>k. getField r k =
                  (if k \<in> set ks \<and> get_prop d k \<noteq> JUndefined then get_prop d k
                   else getField new_ctor k))"
proof (cases new_ctor)
  case (Object p fs)
  let ?fs = "fold (\<lambda>key fs. let val = get_prop d key
                              in if val \<noteq> JUndefined then AList.update key val fs else fs) ks fs"
  have "Generic_fromJSON new_ctor d (Some ks) = Inr (Object p ?fs)"
    using structured_objectAssert [OF assms(1,2)] Object
    by (simp add: Generic_fromJSON_def fold_load_keys [OF assms(3)])
  moreover have "getField (Object p ?fs) k =
      (if k \<in> set ks \<and> get_prop d k \<noteq> JUndefined then get_prop d k else getField new_ctor k)"
    for k
    using Object by (simp add: getField_Object map_of_fold_update_defined)
  ultimately show ?thesis by blast
qed

lemma Generic_fromJSON_all_read:
  assumes "typeof d = T_object" and "d \<noteq> JNull" and "\<not> has_enumerable_prop d ''__proto__''"
  shows "\<exists>r. Generic_fromJSON new_ctor d None = Inr r \<and>
           (\<forall>k. getField r k =
                  (if has_enumerable_prop d k then get_prop d k else getField new_ctor k))"
proof (cases new_ctor)
  case (Object p fs)
  let ?fs = "fold (\<lambda>(key, val) fs. AList.update key val fs) (entries_of d) fs"
  have "Generic_fromJSON new_ctor d None = Inr (Object p ?fs)"
    using structured_objectAssert [OF assms(1,2)] Object
    by (simp add: Generic_fromJSON_def fold_entries [OF no_proto_entry [OF assms(3)]])
  moreover have "getField (Object p ?fs) k =
      (if has_enumerable_prop d k then get_prop d k else getField new_ctor k)" for k
  proof (cases "has_enumerable_prop d k")
    case True
    then show ?thesis
      using get_prop_enumerable [OF True]
      by (simp add: getField_Object map_of_fold_update_entries distinct_entries_of
          map_of_entries_of)
  next
    case False
    then show ?thesis
      using Object
      by (simp add: getField_Object map_of_fold_update_entries distinct_entries_of
          map_of_entries_of has_enumerable_prop_def)
  qed
  ultimately show ?thesis by blast
qed

lemma data_Generic_toJSON_keys:
  assumes "''__proto__'' \<notin> set ks"
  shows "data (Generic_toJSON c x (Some ks)) =
           JObj (fold (\<lambda>key fs. AList.update key (getField x key) fs) ks [])"
  by (simp add: Generic_toJSON_def fold_save_keys [OF assms])

lemma data_Generic_toJSON_all:
  assumes "\<not> hasOwnField x ''__proto__''"
  shows "data (Generic_toJSON c x None) =
           JObj (fold (\<lambda>(key, val) fs. AList.update key val fs) (Object_entries x) [])"
proof -
  from assms have "\<not> has_enumerable_prop (value_of x) ''__proto__''"
    by (cases x) (simp add: hasOwnField_def has_enumerable_prop_def)
  from no_proto_entry [OF this] show ?thesis
    by (simp add: Generic_toJSON_def Object_entries_def fold_entries)
qed

lemma get_prop_own: "map_of fs k = Some v \<Longrightarrow> get_prop (JObject p fs) k = v"
  by (simp add: get_prop_def)


section \<open>The generic serializer and deserializer: claims\<close>

text \<open>
  Claim C1, as amended. For a list of fields \<open>ks\<close> that does not name \<open>__proto__\<close>:
  reviving with \<open>Generic_fromJSON\<close> and \<open>ks\<close> the \<open>data\<close> that \<open>Generic_toJSON\<close> wrote for
  \<open>x\<close> with the same list returns an instance, and that instance agrees with \<open>x\<close> on
  every field of \<open>ks\<close> whose value in \<open>x\<close> is not \<open>undefined\<close>; a field of \<open>ks\<close> that is
  \<open>undefined\<close> in \<open>x\<close> (or missing from it) reads as it does on the default-constructed
  instance.
\<close>

theorem Generic_roundtrip_defined_fields:
  assumes "''__proto__'' \<notin> set ks"
  shows "\<exists>r. Generic_fromJSON new_ctor (data (Generic_toJSON c x (Some ks))) (Some ks) = Inr r \<and>
     (\<forall>k \<in> set ks. getField r k =
        (if getField x k \<noteq> JUndefined then getField x k else getField new_ctor k))"
proof -
  let ?d = "data (Generic_toJSON c x (Some ks))"
  have d: "?d = JObj (fold (\<lambda>key fs. AList.update key (getField x key) fs) ks [])"
    by (rule data_Generic_toJSON_keys [OF assms])
  then have obj: "typeof ?d = T_object" "?d \<noteq> JNull" by simp_all
  have rd: "get_prop ?d k = getField x k" if "k \<in> set ks" for k
    using that by (simp add: d get_prop_own map_of_fold_update_keys)
  from Generic_fromJSON_keys_read [OF obj assms, of new_ctor] obtain r where
    r: "Generic_fromJSON new_ctor ?d (Some ks) = Inr r"
       "\<And>k. getField r k = (if k \<in> set ks \<and> get_prop ?d k \<noteq> JUndefined then get_prop ?d k
                               else getField new_ctor k)"
    by blast
  have "getField r k = (if getField x k \<noteq> JUndefined then getField x k else getField new_ctor k)"
    if "k \<in> set ks" for k
    using that r(2) [of k] rd [OF that] by simp
  with r(1) show ?thesis by blast
qed

theorem Generic_roundtrip_defined_fields_witness:
  "''__proto__'' \<notin> set [''a'', ''b''] \<and>
   (\<exists>r. Generic_fromJSON
           (Object (JObj [(''toJSON'', JFun ''toJSON'')]) [(''a'', JNum 1), (''b'', JNum 2)])
           (data (Generic_toJSON ''T''
                    (Object (JObj [(''toJSON'', JFun ''toJSON'')])
                       [(''a'', JNum 5), (''b'', JUndefined), (''z'', JNull)])
                    (Some [''a'', ''b''])))
           (Some [''a'', ''b'']) = Inr r \<and>
         getField r ''a'' = JNum 5 \<and> getField r ''b'' = JNum 2)"
proof -
  have h: "''__proto__'' \<notin> set [''a'', ''b'']" by simp
  from Generic_roundtrip_defined_fields
    [OF h, of "Object (JObj [(''toJSON'', JFun ''toJSON'')]) [(''a'', JNum 1), (''b'', JNum 2)]"
        "''T''"
        "Object (JObj [(''toJSON'', JFun ''toJSON'')])
           [(''a'', JNum 5), (''b'', JUndefined), (''z'', JNull)]"]
  show ?thesis by (simp add: getField_Object)
qed

text \<open>
  The claim as written fails where a field of the instance is \<open>undefined\<close> and the
  default constructor sets it: the round trip returns the default.
\<close>

theorem Generic_roundtrip_undefined_field_counterexample:
  "Generic_fromJSON (Object JObjectPrototype [(''a'', JNum 1)])
      (data (Generic_toJSON ''T'' (Object JObjectPrototype [(''a'', JUndefined)]) (Some [''a''])))
      (Some [''a'']) = Inr (Object JObjectPrototype [(''a'', JNum 1)]) \<and>
   getField (Object JObjectPrototype [(''a'', JNum 1)]) ''a'' \<noteq>
     getField (Object JObjectPrototype [(''a'', JUndefined)]) ''a''"
  by (simp add: Generic_fromJSON_def Generic_toJSON_def setField_plain getField_Object
      get_prop_def)

text \<open>
  Why the list must not name \<open>__proto__\<close>. Here the class keeps a default for \<open>m\<close> on
  its prototype and \<open>x\<close> is a plain object in which \<open>m\<close> is \<open>undefined\<close>. The entry
  \<open>__proto__\<close> of the list makes the revived instance take the prototype of \<open>x\<close>, and
  the instance no longer reads the default of the class for \<open>m\<close>.
\<close>

lemma Generic_roundtrip_proto_key_example:
  "Generic_fromJSON (Object (JObj [(''m'', JNum 1)]) [])
      (data (Generic_toJSON ''T'' (Object JObjectPrototype [(''m'', JUndefined)])
               (Some [''__proto__'', ''m''])))
      (Some [''__proto__'', ''m'']) = Inr (Object JObjectPrototype []) \<and>
   getField (Object JObjectPrototype [(''m'', JUndefined)]) ''m'' = JUndefined \<and>
   getField (Object (JObj [(''m'', JNum 1)]) []) ''m'' = JNum 1 \<and>
   getField (Object JObjectPrototype []) ''m'' = JUndefined"
  by (simp add: Generic_fromJSON_def Generic_toJSON_def setField.simps getField_Object
      get_prop_def is_object_def Object_prototype_lookup_def Object_prototype_methods_def)

text \<open>
  Claim C6, as amended. For data \<open>d\<close> that is a non-null object, \<open>Generic_fromJSON\<close>
  returns an instance. With an allow-list \<open>ks\<close> that does not name \<open>__proto__\<close>, a
  field has the value read from \<open>d\<close> when it is in \<open>ks\<close> and that value is not
  \<open>undefined\<close>, and reads as on the default-constructed instance otherwise (so also
  when \<open>d\<close> holds it but it is not in \<open>ks\<close>). Without an allow-list, and with no own
  key \<open>__proto__\<close> in \<open>d\<close>, a field has the value of \<open>d\<close> when it is an own enumerable
  field of \<open>d\<close>, whatever that value is, and reads as on the default-constructed
  instance otherwise.
\<close>

theorem Generic_fromJSON_fields:
  assumes "typeof d = T_object" and "d \<noteq> JNull"
  shows "(''__proto__'' \<notin> set ks \<longrightarrow>
            (\<exists>r. Generic_fromJSON new_ctor d (Some ks) = Inr r \<and>
               (\<forall>k. getField r k =
                      (if k \<in> set ks \<and> get_prop d k \<noteq> JUndefined then get_prop d k
                       else getField new_ctor k)))) \<and>
         (\<not> has_enumerable_prop d ''__proto__'' \<longrightarrow>
            (\<exists>r. Generic_fromJSON new_ctor d None = Inr r \<and>
               (\<forall>k. getField r k =
                      (if has_enumerable_prop d k then get_prop d k
                       else getField new_ctor k))))"
  using Generic_fromJSON_keys_read [OF assms] Generic_fromJSON_all_read [OF assms]
  by blast

theorem Generic_fromJSON_fields_witness:
  "typeof (JObj [(''a'', JNum 7), (''extra'', JBool True)]) = T_object \<and>
   JObj [(''a'', JNum 7), (''extra'', JBool True)] \<noteq> JNull \<and>
   ''__proto__'' \<notin> set [''a'', ''b''] \<and>
   \<not> has_enumerable_prop (JObj [(''a'', JNum 7), (''extra'', JBool True)]) ''__proto__'' \<and>
   (\<exists>r. Generic_fromJSON
           (Object (JObj [(''toJSON'', JFun ''toJSON'')]) [(''a'', JNum 1), (''b'', JNum 2)])
           (JObj [(''a'', JNum 7), (''extra'', JBool True)]) (Some [''a'', ''b'']) = Inr r \<and>
        getField r ''a'' = JNum 7 \<and> getField r ''b'' = JNum 2 \<and>
        getField r ''extra'' = JUndefined \<and> getField r ''toJSON'' = JFun ''toJSON'') \<and>
   (\<exists>r. Generic_fromJSON
           (Object (JObj [(''toJSON'', JFun ''toJSON'')]) [(''a'', JNum 1), (''b'', JNum 2)])
           (JObj [(''a'', JNum 7), (''extra'', JBool True)]) None = Inr r \<and>
        getField r ''a'' = JNum 7 \<and> getField r ''b'' = JNum 2 \<and>
        getField r ''extra'' = JBool True \<and> getField r ''toJSON'' = JFun ''toJSON'')"
proof -
  let ?d = "JObj [(''a'', JNum 7), (''extra'', JBool True)]"
  let ?dflt = "Object (JObj [(''toJSON'', JFun ''toJSON'')]) [(''a'', JNum 1), (''b'', JNum 2)]"
  have h1: "typeof ?d = T_object" by simp
  have h2: "?d \<noteq> JNull" by simp
  have h3: "''__proto__'' \<notin> set [''a'', ''b'']" by simp
  have h4: "\<not> has_enumerable_prop ?d ''__proto__''" by (simp add: has_enumerable_prop_def)
  from Generic_fromJSON_fields [OF h1 h2, of "[''a'', ''b'']" ?dflt] h3 h4
  obtain r1 r2 where
    r1: "Generic_fromJSON ?dflt ?d (Some [''a'', ''b'']) = Inr r1"
        "\<And>k. getField r1 k =
               (if k \<in> set [''a'', ''b''] \<and> get_prop ?d k \<noteq> JUndefined then get_prop ?d k
                else getField ?dflt k)" and
    r2: "Generic_fromJSON ?dflt ?d None = Inr r2"
        "\<And>k. getField r2 k =
               (if has_enumerable_prop ?d k then get_prop ?d k else getField ?dflt k)"
    by blast
  have props: "get_prop ?d ''a'' = JNum 7" "get_prop ?d ''b'' = JUndefined"
    "get_prop ?d ''extra'' = JBool True" "has_enumerable_prop ?d ''a''"
    "\<not> has_enumerable_prop ?d ''b''" "has_enumerable_prop ?d ''extra''"
    "\<not> has_enumerable_prop ?d ''toJSON''"
    "getField ?dflt ''b'' = JNum 2" "getField ?dflt ''extra'' = JUndefined"
    "getField ?dflt ''toJSON'' = JFun ''toJSON''"
    by (simp_all add: get_prop_def getField_Object has_enumerable_prop_def
        Object_prototype_lookup_def Object_prototype_methods_def)
  have "getField r1 ''a'' = JNum 7" "getField r1 ''b'' = JNum 2"
    "getField r1 ''extra'' = JUndefined" "getField r1 ''toJSON'' = JFun ''toJSON''"
    using r1(2) [of "''a''"] r1(2) [of "''b''"] r1(2) [of "''extra''"] r1(2) [of "''toJSON''"]
      props by simp_all
  moreover have "getField r2 ''a'' = JNum 7" "getField r2 ''b'' = JNum 2"
    "getField r2 ''extra'' = JBool True" "getField r2 ''toJSON'' = JFun ''toJSON''"
    using r2(2) [of "''a''"] r2(2) [of "''b''"] r2(2) [of "''extra''"] r2(2) [of "''toJSON''"]
      props by simp_all
  ultimately show ?thesis using r1(1) r2(1) h4 by simp
qed

text \<open>
  The claim as written fails where the data holds an allow-listed field with the
  value \<open>undefined\<close>: the default is kept, not overwritten.
\<close>

theorem Generic_fromJSON_undefined_kept_counterexample:
  "has_prop (JObj [(''a'', JUndefined)]) ''a'' \<and> ''a'' \<in> set [''a''] \<and>
   Generic_fromJSON (Object JObjectPrototype [(''a'', JNum 1)]) (JObj [(''a'', JUndefined)])
       (Some [''a''])
     = Inr (Object JObjectPrototype [(''a'', JNum 1)]) \<and>
   getField (Object JObjectPrototype [(''a'', JNum 1)]) ''a'' \<noteq>
     get_prop (JObj [(''a'', JUndefined)]) ''a''"
  by (simp add: Generic_fromJSON_def get_prop_def getField_Object has_prop_def)

text \<open>
  What an own key \<open>__proto__\<close> of the data does without an allow-list: it does not
  become a field of the instance; its value becomes the prototype of the instance,
  which then reads the fields of that value as its own.
\<close>

lemma Generic_fromJSON_proto_key_example:
  "Generic_fromJSON (Object (JObj [(''toJSON'', JFun ''toJSON'')]) [(''a'', JNum 1)])
      (JObj [(''__proto__'', JObj [(''polluted'', JNum 1)])]) None
     = Inr (Object (JObj [(''polluted'', JNum 1)]) [(''a'', JNum 1)]) \<and>
   \<not> hasOwnField (Object (JObj [(''polluted'', JNum 1)]) [(''a'', JNum 1)]) ''__proto__'' \<and>
   getField (Object (JObj [(''polluted'', JNum 1)]) [(''a'', JNum 1)]) ''polluted'' = JNum 1 \<and>
   getField (Object (JObj [(''polluted'', JNum 1)]) [(''a'', JNum 1)]) ''toJSON'' = JUndefined"
  by (simp add: Generic_fromJSON_def entries_of_def setField.simps getField_Object
      hasOwnField_def is_object_def Object_prototype_lookup_def Object_prototype_methods_def)

text \<open>
  Claim C7, as amended. With an allow-list \<open>ks\<close> that does not name \<open>__proto__\<close>, the
  own fields of the \<open>data\<close> that \<open>Generic_toJSON\<close> writes are exactly the keys of \<open>ks\<close>,
  whatever other fields the object has, and each carries the value read from the
  object; a key of \<open>ks\<close> that the object lacks is a field of \<open>data\<close> all the same, with
  the value \<open>undefined\<close> (no default is put there). Without an allow-list, and with no
  own key \<open>__proto__\<close> in the object, the own fields of \<open>data\<close> are the own enumerable
  fields of the object, with their values.
\<close>

theorem Generic_toJSON_fields:
  "(''__proto__'' \<notin> set ks \<longrightarrow>
      (\<forall>k. has_own_prop (data (Generic_toJSON c obj (Some ks))) k \<longleftrightarrow> k \<in> set ks) \<and>
      (\<forall>k \<in> set ks. get_prop (data (Generic_toJSON c obj (Some ks))) k = getField obj k) \<and>
      (\<forall>k \<in> set ks. \<not> hasField obj k \<longrightarrow>
          has_own_prop (data (Generic_toJSON c obj (Some ks))) k \<and>
          get_prop (data (Generic_toJSON c obj (Some ks))) k = JUndefined)) \<and>
   (\<not> hasOwnField obj ''__proto__'' \<longrightarrow>
      (\<forall>k. (has_own_prop (data (Generic_toJSON c obj None)) k \<longleftrightarrow> hasOwnField obj k) \<and>
           (hasOwnField obj k \<longrightarrow>
              get_prop (data (Generic_toJSON c obj None)) k = getField obj k)))"
proof (intro conjI impI)
  assume ks: "''__proto__'' \<notin> set ks"
  note d = data_Generic_toJSON_keys [OF ks, of c obj]
  show "\<forall>k. has_own_prop (data (Generic_toJSON c obj (Some ks))) k \<longleftrightarrow> k \<in> set ks"
    by (simp add: d map_of_fold_update_keys)
  show rd: "\<forall>k \<in> set ks. get_prop (data (Generic_toJSON c obj (Some ks))) k = getField obj k"
    by (simp add: d get_prop_own map_of_fold_update_keys)
  show "\<forall>k \<in> set ks. \<not> hasField obj k \<longrightarrow>
          has_own_prop (data (Generic_toJSON c obj (Some ks))) k \<and>
          get_prop (data (Generic_toJSON c obj (Some ks))) k = JUndefined"
    using rd by (simp add: d map_of_fold_update_keys getField_absent)
next
  assume np: "\<not> hasOwnField obj ''__proto__''"
  note d = data_Generic_toJSON_all [OF np, of c]
  obtain p fs where obj: "obj = Object p fs" by (cases obj)
  have m: "map_of (fold (\<lambda>(key, val) fs. AList.update key val fs) (Object_entries obj) []) k
             = map_of fs k" for k
    using obj
    by (simp add: Object_entries_def map_of_fold_update_entries distinct_entries_of
        map_of_entries_of split: option.splits)
  show "\<forall>k. (has_own_prop (data (Generic_toJSON c obj None)) k \<longleftrightarrow> hasOwnField obj k) \<and>
           (hasOwnField obj k \<longrightarrow>
              get_prop (data (Generic_toJSON c obj None)) k = getField obj k)"
  proof (intro allI conjI impI)
    fix k
    have own: "hasOwnField obj k \<longleftrightarrow> map_of fs k \<noteq> None"
      by (simp add: obj hasOwnField_def)
    show "has_own_prop (data (Generic_toJSON c obj None)) k \<longleftrightarrow> hasOwnField obj k"
      by (simp add: d m own)
    assume "hasOwnField obj k"
    with own obtain v where v: "map_of fs k = Some v" by blast
    then have "getField obj k = v" by (simp add: obj getField_Object)
    moreover have "get_prop (data (Generic_toJSON c obj None)) k = v"
      using v by (simp add: d get_prop_own m)
    ultimately show "get_prop (data (Generic_toJSON c obj None)) k = getField obj k" by simp
  qed
qed

theorem Generic_toJSON_fields_witness:
  "''__proto__'' \<notin> set [''a'', ''b''] \<and>
   ''a'' \<in> set [''a'', ''b''] \<and> ''b'' \<in> set [''a'', ''b''] \<and>
   \<not> hasField (Object JObjectPrototype [(''a'', JNum 1), (''z'', JNull)]) ''b'' \<and>
   \<not> hasOwnField (Object JObjectPrototype [(''a'', JNum 1), (''z'', JNull)]) ''__proto__'' \<and>
   hasOwnField (Object JObjectPrototype [(''a'', JNum 1), (''z'', JNull)]) ''z'' \<and>
   get_prop (data (Generic_toJSON ''T'' (Object JObjectPrototype [(''a'', JNum 1), (''z'', JNull)])
                     (Some [''a'', ''b'']))) ''a'' = JNum 1 \<and>
   get_prop (data (Generic_toJSON ''T'' (Object JObjectPrototype [(''a'', JNum 1), (''z'', JNull)])
                     (Some [''a'', ''b'']))) ''b'' = JUndefined \<and>
   has_own_prop (data (Generic_toJSON ''T'' (Object JObjectPrototype [(''a'', JNum 1), (''z'', JNull)])
                     (Some [''a'', ''b'']))) ''b'' \<and>
   \<not> has_own_prop (data (Generic_toJSON ''T'' (Object JObjectPrototype [(''a'', JNum 1), (''z'', JNull)])
                     (Some [''a'', ''b'']))) ''z'' \<and>
   has_own_prop (data (Generic_toJSON ''T'' (Object JObjectPrototype [(''a'', JNum 1), (''z'', JNull)])
                     None)) ''z'' \<and>
   get_prop (data (Generic_toJSON ''T'' (Object JObjectPrototype [(''a'', JNum 1), (''z'', JNull)])
                     None)) ''z'' = JNull"
proof -
  let ?obj = "Object JObjectPrototype [(''a'', JNum 1), (''z'', JNull)]"
  have h: "''__proto__'' \<notin> set [''a'', ''b'']" "''a'' \<in> set [''a'', ''b'']"
    "''b'' \<in> set [''a'', ''b'']" "''z'' \<notin> set [''a'', ''b'']"
    by simp_all
  have o: "\<not> hasField ?obj ''b''" "\<not> hasOwnField ?obj ''__proto__''" "hasOwnField ?obj ''z''"
    "getField ?obj ''a'' = JNum 1" "getField ?obj ''z'' = JNull"
    by (simp_all add: hasField_Object hasOwnField_def getField_Object
        Object_prototype_lookup_def Object_prototype_methods_def)
  let ?with = "data (Generic_toJSON ''T'' ?obj (Some [''a'', ''b'']))"
  let ?all = "data (Generic_toJSON ''T'' ?obj None)"
  from Generic_toJSON_fields [of "[''a'', ''b'']" "''T''" ?obj] h(1) o(2)
  have own: "\<And>k. has_own_prop ?with k \<longleftrightarrow> k \<in> set [''a'', ''b'']"
    and rd: "\<And>k. k \<in> set [''a'', ''b''] \<Longrightarrow> get_prop ?with k = getField ?obj k"
    and missing: "\<And>k. k \<in> set [''a'', ''b''] \<Longrightarrow> \<not> hasField ?obj k \<Longrightarrow>
                    has_own_prop ?with k \<and> get_prop ?with k = JUndefined"
    and all: "\<And>k. (has_own_prop ?all k \<longleftrightarrow> hasOwnField ?obj k) \<and>
                 (hasOwnField ?obj k \<longrightarrow> get_prop ?all k = getField ?obj k)"
    by blast+
  from rd [OF h(2)] missing [OF h(3) o(1)] own [of "''z''"] all [of "''z''"] h o
  show ?thesis by simp
qed

text \<open>
  The claim as written fails where the allow-list names a key that the object lacks:
  the key is not left out of \<open>data\<close>.
\<close>

theorem Generic_toJSON_missing_key_counterexample:
  "\<not> hasField (Object JObjectPrototype [(''a'', JNum 1)]) ''b'' \<and>
   has_own_prop (data (Generic_toJSON ''T'' (Object JObjectPrototype [(''a'', JNum 1)])
                         (Some [''a'', ''b'']))) ''b''"
  by (simp add: Generic_toJSON_def setField_plain getField_Object hasField_Object
      Object_prototype_lookup_def Object_prototype_methods_def)

text \<open>
  What an own key \<open>__proto__\<close> of the object does without an allow-list: a value that
  is not an object is dropped, and \<open>data\<close> has no such field.
\<close>

lemma Generic_toJSON_proto_key_example:
  "hasOwnField (Object JObjectPrototype [(''__proto__'', JNum 5), (''a'', JNum 1)]) ''__proto__'' \<and>
   data (Generic_toJSON ''T'' (Object JObjectPrototype [(''__proto__'', JNum 5), (''a'', JNum 1)])
           None) = JObj [(''a'', JNum 1)]"
  by (simp add: Generic_toJSON_def Object_entries_def entries_of_def setField.simps
      hasOwnField_def is_object_def Object_prototype_lookup_def Object_prototype_methods_def)

text \<open>
  Claim C8. \<open>Generic_fromJSON\<close> raises a TypeAssertion error exactly when the data is
  not a non-null value of type "object"; it raises no other error, and on data that is
  such a value it returns an instance.
\<close>

theorem Generic_fromJSON_TypeAssertion:
  "(Generic_fromJSON new_ctor d keys = Inl TypeAssertionError
      \<longleftrightarrow> \<not> (typeof d = T_object \<and> d \<noteq> JNull)) \<and>
   ((\<exists>e. Generic_fromJSON new_ctor d keys = Inl e)
      \<longleftrightarrow> \<not> (typeof d = T_object \<and> d \<noteq> JNull)) \<and>
   (typeof d = T_object \<and> d \<noteq> JNull
      \<longrightarrow> (\<exists>obj. Generic_fromJSON new_ctor d keys = Inr obj))"
  by (cases d; cases keys) (simp_all add: Generic_fromJSON_def)

theorem Generic_fromJSON_TypeAssertion_witness:
  "typeof (JObj [(''a'', JNum 2)]) = T_object \<and> JObj [(''a'', JNum 2)] \<noteq> JNull \<and>
   (\<exists>obj. Generic_fromJSON (Object JObjectPrototype [(''a'', JNum 1)])
             (JObj [(''a'', JNum 2)]) None = Inr obj) \<and>
   Generic_fromJSON (Object JObjectPrototype [(''a'', JNum 1)]) (JStr ''text'') None
     = Inl TypeAssertionError \<and>
   Generic_fromJSON (Object JObjectPrototype [(''a'', JNum 1)]) JNull (Some [''a''])
     = Inl TypeAssertionError"
  using Generic_fromJSON_TypeAssertion
      [of "Object JObjectPrototype [(''a'', JNum 1)]" "JObj [(''a'', JNum 2)]" None]
    Generic_fromJSON_TypeAssertion
      [of "Object JObjectPrototype [(''a'', JNum 1)]" "JStr ''text''" None]
    Generic_fromJSON_TypeAssertion
      [of "Object JObjectPrototype [(''a'', JNum 1)]" JNull "Some [''a'']"]
  by simp

text \<open>
  Claim C10, as amended. Where the data has a field whose value is \<open>undefined\<close>, named
  in an allow-list that does not name \<open>__proto__\<close>: with the allow-list
  \<open>Generic_fromJSON\<close> skips the field and the instance keeps what the default
  constructor gave it; without an allow-list the \<open>undefined\<close> is assigned, and the
  instance has the field with the value \<open>undefined\<close>.
\<close>

theorem Generic_fromJSON_undefined_asymmetry:
  assumes "has_enumerable_prop d k" and "get_prop d k = JUndefined" and "k \<in> set ks"
    and "''__proto__'' \<notin> set ks"
  shows "(\<exists>r. Generic_fromJSON new_ctor d (Some ks) = Inr r \<and>
              getField r k = getField new_ctor k \<and> (hasField r k \<longleftrightarrow> hasField new_ctor k)) \<and>
         (\<exists>r. Generic_fromJSON new_ctor d None = Inr r \<and>
              getField r k = JUndefined \<and> hasField r k)"
proof -
  obtain p fs where nc: "new_ctor = Object p fs" by (cases new_ctor)
  from assms(3,4) have k: "k \<noteq> ''__proto__''" by auto
  from assms(1) have ok: "objectAssert d = Inr ()"
    by (cases d) (simp_all add: has_enumerable_prop_def)
  from get_prop_enumerable [OF assms(1)] assms(2)
  have undef: "map_of (enumerable_props d) k = Some JUndefined" by simp
  let ?fs = "fold (\<lambda>key fs. let val = get_prop d key
                              in if val \<noteq> JUndefined then AList.update key val fs else fs) ks fs"
  have "Generic_fromJSON new_ctor d (Some ks) = Inr (Object p ?fs)"
    using ok nc by (simp add: Generic_fromJSON_def fold_load_keys [OF assms(4)])
  moreover have "map_of ?fs k = map_of fs k"
    using assms(2) by (simp add: map_of_fold_update_defined)
  ultimately have skipped: "\<exists>r. Generic_fromJSON new_ctor d (Some ks) = Inr r \<and>
              getField r k = getField new_ctor k \<and> (hasField r k \<longleftrightarrow> hasField new_ctor k)"
    using nc by (simp add: getField_Object hasField_Object)
  let ?r = "fold (\<lambda>(key, val) obj. setField obj key val) (entries_of d) new_ctor"
  have "Generic_fromJSON new_ctor d None = Inr ?r"
    using ok by (simp add: Generic_fromJSON_def)
  moreover have "map_of (own_fields ?r) k = Some JUndefined"
    using undef by (simp add: own_fields_fold_entries [OF distinct_entries_of k] map_of_entries_of)
  ultimately have assigned: "\<exists>r. Generic_fromJSON new_ctor d None = Inr r \<and>
              getField r k = JUndefined \<and> hasField r k"
    using getField_own hasField_own by blast
  from skipped assigned show ?thesis by blast
qed

theorem Generic_fromJSON_undefined_asymmetry_witness:
  "has_enumerable_prop (JObj [(''a'', JUndefined)]) ''a'' \<and>
   get_prop (JObj [(''a'', JUndefined)]) ''a'' = JUndefined \<and>
   ''a'' \<in> set [''a''] \<and> ''__proto__'' \<notin> set [''a''] \<and>
   (\<exists>r. Generic_fromJSON (Object JObjectPrototype [(''a'', JNum 1)])
           (JObj [(''a'', JUndefined)]) (Some [''a'']) = Inr r \<and>
        getField r ''a'' = JNum 1) \<and>
   (\<exists>r. Generic_fromJSON (Object JObjectPrototype [(''a'', JNum 1)])
           (JObj [(''a'', JUndefined)]) None = Inr r \<and>
        getField r ''a'' = JUndefined \<and> hasField r ''a'')"
proof -
  have h1: "has_enumerable_prop (JObj [(''a'', JUndefined)]) ''a''"
    by (simp add: has_enumerable_prop_def)
  have h2: "get_prop (JObj [(''a'', JUndefined)]) ''a'' = JUndefined"
    by (simp add: get_prop_def)
  have h3: "''a'' \<in> set [''a'']" by simp
  have h4: "''__proto__'' \<notin> set [''a'']" by simp
  have dflt: "getField (Object JObjectPrototype [(''a'', JNum 1)]) ''a'' = JNum 1"
    by (simp add: getField_Object)
  from Generic_fromJSON_undefined_asymmetry
    [OF h1 h2 h3 h4, of "Object JObjectPrototype [(''a'', JNum 1)]"] h1 h2 dflt
  show ?thesis by auto
qed

text \<open>
  The claim as written fails for the field \<open>__proto__\<close>: where the data has it as an
  own field with the value \<open>undefined\<close>, the assignment without an allow-list runs
  the setter of the accessor, which does nothing with \<open>undefined\<close>; the instance is
  as the default constructor made it, and \<open>__proto__\<close> reads its prototype on it.
\<close>

theorem Generic_fromJSON_undefined_proto_counterexample:
  "has_enumerable_prop (JObj [(''__proto__'', JUndefined)]) ''__proto__'' \<and>
   get_prop (JObj [(''__proto__'', JUndefined)]) ''__proto__'' = JUndefined \<and>
   Generic_fromJSON (Object JObjectPrototype [(''a'', JNum 1)])
       (JObj [(''__proto__'', JUndefined)]) None
     = Inr (Object JObjectPrototype [(''a'', JNum 1)]) \<and>
   getField (Object JObjectPrototype [(''a'', JNum 1)]) ''__proto__'' = JObjectPrototype"
  by (simp add: Generic_fromJSON_def entries_of_def setField.simps getField_Object
      has_enumerable_prop_def get_prop_def is_object_def Object_prototype_lookup_def)

section \<open>The reviver: claims\<close>

lemma isReviverValue_envelope:
  "isReviverValue (JObj [(''ctor'', JStr c), (''data'', d)])"
  "get_prop (JObj [(''ctor'', JStr c), (''data'', d)]) ''ctor'' = JStr c"
  "get_prop (JObj [(''ctor'', JStr c), (''data'', d)]) ''data'' = d"
  by (simp_all add: isReviverValue_def has_prop_def get_prop_def)

lemma legacy_tags_not_inherited:
  "c \<in> set legacyUnwrapCtors \<Longrightarrow> Object_prototype_lookup c = Absent"
  "Object_prototype_lookup ''ActionIdentifier'' = Absent"
  "Object_prototype_lookup [] = Absent"
  by (auto simp: legacyUnwrapCtors_def Object_prototype_lookup_def Object_prototype_methods_def)

text \<open>
  Claim C2. The claim reads: an envelope whose tag is found neither in the registry
  nor in the legacy table makes \<open>Reviver\<close> raise the Unknown-Constructor error. The
  code does not do so for a tag that names a member of \<open>Object.prototype\<close>: with
  \<open>toString\<close> as the tag and nothing registered under it, the read of the registry
  brings up the inherited function, the legacy \<open>switch\<close> and the \<open>throw\<close> after it are
  passed over, and the call of \<open>fromJSON\<close> on that function raises a \<open>TypeError\<close>.
\<close>

theorem Reviver_inherited_tag_TypeError:
  "isReviverValue (JObj [(''ctor'', JStr ''toString''), (''data'', JObj [])]) \<and>
   Map.empty ''toString'' = (None :: JsonableClass option) \<and>
   ''toString'' \<notin> set legacyUnwrapCtors \<and> ''toString'' \<noteq> ''ActionIdentifier'' \<and>
   Reviver Map.empty Inr [] (JObj [(''ctor'', JStr ''toString''), (''data'', JObj [])])
     = ([], Inl TypeError) \<and>
   Reviver Map.empty Inr [] (JObj [(''ctor'', JStr ''toString''), (''data'', JObj [])])
     \<noteq> ([], Inl (UnknownConstructorError ''toString''))"
  by (simp add: Reviver_def isReviverValue_envelope legacyUnwrapCtors_def
      Object_prototype_lookup_def Object_prototype_methods_def UnknownConstructorError_def)

text \<open>
  For every other tag the claim holds: a tag that is not registered, is not a legacy
  tag and names no member of \<open>Object.prototype\<close> makes \<open>Reviver\<close> throw the error
  "Could not locate constructor named ...", with no effect and no value.
\<close>

lemma Reviver_unregistered_tag:
  assumes "isReviverValue v" and "get_prop v ''ctor'' = JStr c"
    and "constructorsForReviver c = None" and "Object_prototype_lookup c = Absent"
    and "c \<notin> set legacyUnwrapCtors" and "c \<noteq> ''ActionIdentifier''"
  shows "Reviver constructorsForReviver loadActionIdentifier key v =
           ([], Inl (UnknownConstructorError c))"
  using assms by (simp add: Reviver_def)

lemma Reviver_unregistered_tag_example:
  "Reviver Map.empty Inr [] (JObj [(''ctor'', JStr ''NotARealType''), (''data'', JObj [])])
     = ([], Inl (Error (''Could not locate constructor named NotARealType'' @
                        ''. If the save data is valid, this is a bug.'')))"
proof -
  let ?v = "JObj [(''ctor'', JStr ''NotARealType''), (''data'', JObj [])]"
  have h1: "isReviverValue ?v" by (rule isReviverValue_envelope)
  have h2: "get_prop ?v ''ctor'' = JStr ''NotARealType''" by (rule isReviverValue_envelope)
  have h3: "Map.empty ''NotARealType'' = (None :: JsonableClass option)" by simp
  have h4: "Object_prototype_lookup ''NotARealType'' = Absent"
    by (simp add: Object_prototype_lookup_def Object_prototype_methods_def)
  have h5: "''NotARealType'' \<notin> set legacyUnwrapCtors" by (simp add: legacyUnwrapCtors_def)
  have h6: "''NotARealType'' \<noteq> ''ActionIdentifier''" by simp
  from Reviver_unregistered_tag [OF h1 h2 h3 h4 h5 h6, of Inr "[]"]
  show ?thesis by (simp add: UnknownConstructorError_def)
qed

text \<open>
  Claim C3, as amended. \<open>Reviver\<close> returns unchanged, with no effect, every value that
  is not a non-null object, or has no \<open>ctor\<close> member, or whose \<open>ctor\<close> is not a string,
  or has no \<open>data\<close> member. The string may be empty: an object whose \<open>ctor\<close> is the
  empty string and that has a \<open>data\<close> member is an envelope, and with no class
  registered under the empty string \<open>Reviver\<close> throws the unknown-constructor error
  for it.
\<close>

theorem Reviver_passthrough:
  "(typeof v \<noteq> T_object \<or> v = JNull \<or> \<not> has_prop v ''ctor'' \<or>
    typeof (get_prop v ''ctor'') \<noteq> T_string \<or> \<not> has_prop v ''data''
      \<longrightarrow> Reviver constructorsForReviver loadActionIdentifier key v = ([], Inr v)) \<and>
   (typeof v = T_object \<and> v \<noteq> JNull \<and> has_prop v ''ctor'' \<and> get_prop v ''ctor'' = JStr [] \<and>
    has_prop v ''data'' \<and> constructorsForReviver [] = None
      \<longrightarrow> Reviver constructorsForReviver loadActionIdentifier key v =
            ([], Inl (UnknownConstructorError [])))"
  by (auto simp: Reviver_def isReviverValue_def legacyUnwrapCtors_def legacy_tags_not_inherited)

theorem Reviver_passthrough_witness:
  "\<not> has_prop (JObj [(''ctor'', JStr ''Employee'')]) ''data'' \<and>
   Reviver Map.empty Inr [] (JObj [(''ctor'', JStr ''Employee'')])
     = ([], Inr (JObj [(''ctor'', JStr ''Employee'')])) \<and>
   typeof (get_prop (JObj [(''ctor'', JNum 3), (''data'', JNull)]) ''ctor'') \<noteq> T_string \<and>
   Reviver Map.empty Inr [] (JObj [(''ctor'', JNum 3), (''data'', JNull)])
     = ([], Inr (JObj [(''ctor'', JNum 3), (''data'', JNull)])) \<and>
   typeof (JStr ''Employee'') \<noteq> T_object \<and>
   Reviver Map.empty Inr [] (JStr ''Employee'') = ([], Inr (JStr ''Employee'')) \<and>
   Reviver Map.empty Inr [] JNull = ([], Inr JNull) \<and>
   has_prop (JObj [(''ctor'', JStr []), (''data'', JNum 1)]) ''ctor'' \<and>
   get_prop (JObj [(''ctor'', JStr []), (''data'', JNum 1)]) ''ctor'' = JStr [] \<and>
   has_prop (JObj [(''ctor'', JStr []), (''data'', JNum 1)]) ''data'' \<and>
   Reviver Map.empty Inr [] (JObj [(''ctor'', JStr []), (''data'', JNum 1)])
     = ([], Inl (UnknownConstructorError []))"
proof -
  have props:
    "\<not> has_prop (JObj [(''ctor'', JStr ''Employee'')]) ''data''"
    "typeof (get_prop (JObj [(''ctor'', JNum 3), (''data'', JNull)]) ''ctor'') \<noteq> T_string"
    "has_prop (JObj [(''ctor'', JStr []), (''data'', JNum 1)]) ''ctor''"
    "get_prop (JObj [(''ctor'', JStr []), (''data'', JNum 1)]) ''ctor'' = JStr []"
    "has_prop (JObj [(''ctor'', JStr []), (''data'', JNum 1)]) ''data''"
    by (simp_all add: has_prop_def get_prop_def Object_prototype_lookup_def
        Object_prototype_methods_def)
  from props
    Reviver_passthrough [of "JObj [(''ctor'', JStr ''Employee'')]" Map.empty Inr "[]"]
    Reviver_passthrough [of "JObj [(''ctor'', JNum 3), (''data'', JNull)]" Map.empty Inr "[]"]
    Reviver_passthrough [of "JStr ''Employee''" Map.empty Inr "[]"]
    Reviver_passthrough [of JNull Map.empty Inr "[]"]
    Reviver_passthrough [of "JObj [(''ctor'', JStr []), (''data'', JNum 1)]" Map.empty Inr "[]"]
  show ?thesis by simp
qed

text \<open>
  The claim as written fails at an object whose \<open>ctor\<close> is the empty string: it is
  not returned unchanged.
\<close>

theorem Reviver_empty_ctor_counterexample:
  "Reviver Map.empty Inr [] (JObj [(''ctor'', JStr []), (''data'', JNum 1)]) \<noteq>
     ([], Inr (JObj [(''ctor'', JStr []), (''data'', JNum 1)]))"
  by (simp add: Reviver_def isReviverValue_envelope legacyUnwrapCtors_def
      legacy_tags_not_inherited)

text \<open>
  Claim C4. For an envelope whose tag is one of the legacy unwrap tags
  (\<open>AllServersMap\<close>, \<open>Industry\<close>, \<open>Employee\<close>, \<open>Company\<close>, \<open>Faction\<close>), looked up after
  the registry has no class under that tag, \<open>Reviver\<close> returns the \<open>data\<close> member as it
  is; its effects are exactly one warning, and no call of any \<open>fromJSON\<close>.
\<close>

theorem Reviver_legacy_unwrap:
  assumes "isReviverValue v" and "get_prop v ''ctor'' = JStr c"
    and "c \<in> set legacyUnwrapCtors" and "constructorsForReviver c = None"
  shows "Reviver constructorsForReviver loadActionIdentifier key v =
           ([ConsoleWarn (legacyWarning c)], Inr (get_prop v ''data''))"
  using assms by (simp add: Reviver_def legacy_tags_not_inherited)

theorem Reviver_legacy_unwrap_witness:
  "isReviverValue (JObj [(''ctor'', JStr ''Employee''), (''data'', JObj [(''x'', JNum 1)])]) \<and>
   get_prop (JObj [(''ctor'', JStr ''Employee''), (''data'', JObj [(''x'', JNum 1)])]) ''ctor''
     = JStr ''Employee'' \<and>
   ''Employee'' \<in> set legacyUnwrapCtors \<and>
   Map.empty ''Employee'' = (None :: JsonableClass option) \<and>
   Reviver Map.empty Inr []
       (JObj [(''ctor'', JStr ''Employee''), (''data'', JObj [(''x'', JNum 1)])])
     = ([ConsoleWarn ''Legacy load type Employee converted to expected format while loading.''],
        Inr (JObj [(''x'', JNum 1)]))"
proof -
  let ?v = "JObj [(''ctor'', JStr ''Employee''), (''data'', JObj [(''x'', JNum 1)])]"
  have h1: "isReviverValue ?v" by (rule isReviverValue_envelope)
  have h2: "get_prop ?v ''ctor'' = JStr ''Employee''" by (rule isReviverValue_envelope)
  have h3: "''Employee'' \<in> set legacyUnwrapCtors" by (simp add: legacyUnwrapCtors_def)
  have h4: "Map.empty ''Employee'' = (None :: JsonableClass option)" by simp
  from Reviver_legacy_unwrap [OF h1 h2 h3 h4, of Inr "[]"] h1 h2 h3
  show ?thesis by (simp add: legacyWarning_def isReviverValue_envelope)
qed

text \<open>
  Claim C5, as amended. For an envelope whose tag is \<open>ActionIdentifier\<close>, looked up
  after the registry has no class under that tag, \<open>Reviver\<close> returns what
  \<open>loadActionIdentifier\<close> returns for the \<open>data\<close> member; \<open>Reviver\<close> itself prints no
  warning on this path.
\<close>

theorem Reviver_ActionIdentifier:
  assumes "isReviverValue v" and "get_prop v ''ctor'' = JStr ''ActionIdentifier''"
    and "constructorsForReviver ''ActionIdentifier'' = None"
  shows "Reviver constructorsForReviver loadActionIdentifier key v =
           ([], loadActionIdentifier (get_prop v ''data''))"
  using assms by (simp add: Reviver_def legacyUnwrapCtors_def legacy_tags_not_inherited)

theorem Reviver_ActionIdentifier_witness:
  "isReviverValue (JObj [(''ctor'', JStr ''ActionIdentifier''), (''data'', JNum 1)]) \<and>
   get_prop (JObj [(''ctor'', JStr ''ActionIdentifier''), (''data'', JNum 1)]) ''ctor''
     = JStr ''ActionIdentifier'' \<and>
   Map.empty ''ActionIdentifier'' = (None :: JsonableClass option) \<and>
   Reviver Map.empty (\<lambda>d. Inr (JArr [d])) []
       (JObj [(''ctor'', JStr ''ActionIdentifier''), (''data'', JNum 1)])
     = ([], Inr (JArr [JNum 1]))"
proof -
  let ?v = "JObj [(''ctor'', JStr ''ActionIdentifier''), (''data'', JNum 1)]"
  have h1: "isReviverValue ?v" by (rule isReviverValue_envelope)
  have h2: "get_prop ?v ''ctor'' = JStr ''ActionIdentifier''" by (rule isReviverValue_envelope)
  have h3: "Map.empty ''ActionIdentifier'' = (None :: JsonableClass option)" by simp
  from Reviver_ActionIdentifier [OF h1 h2 h3, of "\<lambda>d. Inr (JArr [d])" "[]"] h1 h2
  show ?thesis by (simp add: isReviverValue_envelope)
qed

text \<open>
  The claim as written fails: on the \<open>ActionIdentifier\<close> path the list of effects of
  \<open>Reviver\<close> is empty, so no warning is printed.
\<close>

theorem Reviver_ActionIdentifier_no_warning_counterexample:
  "isReviverValue (JObj [(''ctor'', JStr ''ActionIdentifier''), (''data'', JNum 1)]) \<and>
   fst (Reviver Map.empty Inr []
          (JObj [(''ctor'', JStr ''ActionIdentifier''), (''data'', JNum 1)])) = []"
  by (simp add: Reviver_def isReviverValue_envelope legacyUnwrapCtors_def
      legacy_tags_not_inherited)

text \<open>
  Claim C9. For an envelope whose tag is a key of the registry, \<open>Reviver\<close> calls the
  \<open>fromJSON\<close> of the class on the envelope, and an error of \<open>fromJSON\<close> is the error of
  \<open>Reviver\<close>. Where the class declares \<open>validationData\<close>, the instance is validated
  against it: on a mismatch \<open>Reviver\<close> raises a Validation error and does not return
  the instance, otherwise it returns the instance. Where the class declares none, the
  result of \<open>fromJSON\<close> is returned and \<open>validateObject\<close> is not called.
\<close>

theorem Reviver_registered:
  assumes "isReviverValue v" and "get_prop v ''ctor'' = JStr c"
    and "constructorsForReviver c = Some cls"
  shows "(\<forall>e. fromJSON cls v = Inl e \<longrightarrow>
            Reviver constructorsForReviver loadActionIdentifier key v =
              ([Invoked_fromJSON c], Inl e)) \<and>
         (\<forall>obj validator. fromJSON cls v = Inr obj \<and> validationData cls = Some validator \<and>
             \<not> validator obj \<longrightarrow>
            Reviver constructorsForReviver loadActionIdentifier key v =
              ([Invoked_fromJSON c, Invoked_validateObject c], Inl ValidationError)) \<and>
         (\<forall>obj validator. fromJSON cls v = Inr obj \<and> validationData cls = Some validator \<and>
             validator obj \<longrightarrow>
            Reviver constructorsForReviver loadActionIdentifier key v =
              ([Invoked_fromJSON c, Invoked_validateObject c], Inr obj)) \<and>
         (validationData cls = None \<longrightarrow>
            Reviver constructorsForReviver loadActionIdentifier key v =
              ([Invoked_fromJSON c], fromJSON cls v))"
  using assms by (auto simp: Reviver_def validateObject_def split: sum.splits)

theorem Reviver_registered_witness:
  "let revive = (\<lambda>v. case Generic_fromJSON (Object JObjectPrototype [(''v'', JNum 0)])
                             (get_prop v ''data'') None of
                        Inl e \<Rightarrow> Inl e | Inr obj \<Rightarrow> Inr (value_of obj));
       numeric_v = (\<lambda>obj. typeof (get_prop obj ''v'') = T_number);
       registry = [''Typed'' \<mapsto> \<lparr>fromJSON = revive, validationData = Some numeric_v\<rparr>,
                   ''Plain'' \<mapsto> \<lparr>fromJSON = revive, validationData = None\<rparr>]
   in
     Reviver registry Inr []
        (JObj [(''ctor'', JStr ''Typed''), (''data'', JObj [(''v'', JStr ''not-a-number'')])])
       = ([Invoked_fromJSON ''Typed'', Invoked_validateObject ''Typed''], Inl ValidationError) \<and>
     Reviver registry Inr []
        (JObj [(''ctor'', JStr ''Typed''), (''data'', JObj [(''v'', JNum 4)])])
       = ([Invoked_fromJSON ''Typed'', Invoked_validateObject ''Typed''],
          Inr (JObj [(''v'', JNum 4)])) \<and>
     Reviver registry Inr []
        (JObj [(''ctor'', JStr ''Typed''), (''data'', JNum 4)])
       = ([Invoked_fromJSON ''Typed''], Inl TypeAssertionError) \<and>
     Reviver registry Inr []
        (JObj [(''ctor'', JStr ''Plain''), (''data'', JObj [(''v'', JStr ''not-a-number'')])])
       = ([Invoked_fromJSON ''Plain''], Inr (JObj [(''v'', JStr ''not-a-number'')]))"
proof -
  define revive where "revive =
    (\<lambda>v. case Generic_fromJSON (Object JObjectPrototype [(''v'', JNum 0)])
                 (get_prop v ''data'') None of
            Inl e \<Rightarrow> Inl e | Inr obj \<Rightarrow> Inr (value_of obj))"
  define numeric_v where "numeric_v = (\<lambda>obj. typeof (get_prop obj ''v'') = T_number)"
  define typed where "typed = \<lparr>fromJSON = revive, validationData = Some numeric_v\<rparr>"
  define plain where "plain = \<lparr>fromJSON = revive, validationData = None\<rparr>"
  define registry where "registry = [''Typed'' \<mapsto> typed, ''Plain'' \<mapsto> plain]"
  let ?bad = "JObj [(''v'', JStr ''not-a-number'')]"
  let ?good = "JObj [(''v'', JNum 4)]"
  let ?env = "\<lambda>c d. JObj [(''ctor'', JStr c), (''data'', d)]"
  have reg: "registry ''Typed'' = Some typed" "registry ''Plain'' = Some plain"
    by (simp_all add: registry_def)
  have cls: "fromJSON typed = revive" "validationData typed = Some numeric_v"
    "fromJSON plain = revive" "validationData plain = None"
    by (simp_all add: typed_def plain_def)
  have rev: "revive (?env c ?bad) = Inr ?bad" "revive (?env c ?good) = Inr ?good"
    "revive (?env c (JNum 4)) = Inl TypeAssertionError" for c
    by (simp_all add: revive_def isReviverValue_envelope Generic_fromJSON_def entries_of_def
        setField_plain)
  have val: "\<not> numeric_v ?bad" "numeric_v ?good"
    by (simp_all add: numeric_v_def get_prop_def)
  have "Reviver registry Inr [] (?env ''Typed'' ?bad)
          = ([Invoked_fromJSON ''Typed'', Invoked_validateObject ''Typed''], Inl ValidationError)"
    using Reviver_registered [where v = "?env ''Typed'' ?bad" and c = "''Typed''"
          and constructorsForReviver = registry and cls = typed
          and loadActionIdentifier = Inr and key = "[]"]
      isReviverValue_envelope reg cls rev val
    by simp
  moreover have "Reviver registry Inr [] (?env ''Typed'' ?good)
          = ([Invoked_fromJSON ''Typed'', Invoked_validateObject ''Typed''], Inr ?good)"
    using Reviver_registered [where v = "?env ''Typed'' ?good" and c = "''Typed''"
          and constructorsForReviver = registry and cls = typed
          and loadActionIdentifier = Inr and key = "[]"]
      isReviverValue_envelope reg cls rev val
    by simp
  moreover have "Reviver registry Inr [] (?env ''Typed'' (JNum 4))
          = ([Invoked_fromJSON ''Typed''], Inl TypeAssertionError)"
    using Reviver_registered [where v = "?env ''Typed'' (JNum 4)" and c = "''Typed''"
          and constructorsForReviver = registry and cls = typed
          and loadActionIdentifier = Inr and key = "[]"]
      isReviverValue_envelope reg cls rev
    by simp
  moreover have "Reviver registry Inr [] (?env ''Plain'' ?bad)
          = ([Invoked_fromJSON ''Plain''], Inr ?bad)"
    using Reviver_registered [where v = "?env ''Plain'' ?bad" and c = "''Plain''"
          and constructorsForReviver = registry and cls = plain
          and loadActionIdentifier = Inr and key = "[]"]
      isReviverValue_envelope reg cls rev
    by simp
  ultimately show ?thesis
    by (simp add: Let_def registry_def typed_def plain_def revive_def numeric_v_def)
qed

end
